theory Spec2Isabelle
  imports Complex_Main "HOL-Library.Sublist"
begin

section \<open>The yield aggregation endpoint (\<^verbatim>\<open>src/api/yields.js\<close>)\<close>

text \<open>
  The file is one serverless function: a retrying fetcher, three source adapters
  (DeFiLlama, Pendle, a hand-written list), a protocol categorizer and the request
  handler that merges the adapters' records and computes statistics over them.

  Conventions of the embedding.
  \<^item> JavaScript numbers are modelled as exact rationals (\<^typ>\<open>rat\<close>): comparison, sum,
    mean and extrema are the mathematical ones. The rounding of IEEE-754 doubles, NaN
    and the infinities are not modelled.
  \<^item> JavaScript strings are \<^typ>\<open>string\<close>; \<^verbatim>\<open>toLowerCase\<close> and \<^verbatim>\<open>toUpperCase\<close> act on the
    ASCII letters, all other characters are left as they are.
  \<^item> A thrown error or a rejected promise is \<open>Inl e\<close>, a returned value or a fulfilled
    promise is \<open>Inr v\<close>.
  \<^item> The upstream JSON documents are typed after the fields the code reads; a field
    the code itself tests for absence (\<^verbatim>\<open>data.results\<close>, \<^verbatim>\<open>pool.apyBase || 0\<close>) or that
    makes the code throw when it is absent (\<^verbatim>\<open>data.data\<close>) is an \<^typ>\<open>'a option\<close>.
  \<^item> The network is an input: for each request the outcome of its \<open>i\<close>-th attempt.
    What the code does to the outside (requests, sleeps, error logs) is returned as a
    list of events.
  \<^item> The clock is an input too: every \<^verbatim>\<open>new Date().toISOString()\<close> of one request reads
    the same string.
\<close>

subsection \<open>Errors, network outcomes and events\<close>

datatype js_error =
    NetworkError            \<comment> \<open>\<^verbatim>\<open>fetch(url)\<close> rejected\<close>
  | HttpError nat           \<comment> \<open>\<^verbatim>\<open>new Error(`HTTP ${response.status}`)\<close>\<close>
  | JsonParseError          \<comment> \<open>\<^verbatim>\<open>response.json()\<close> rejected\<close>
  | TypeError               \<comment> \<open>a property read on \<^verbatim>\<open>undefined\<close>\<close>

text \<open>
  One call of \<^verbatim>\<open>fetch(url)\<close>: it rejects, or it resolves to a response with a status
  and a body that parses as JSON (\<open>Some\<close>) or does not (\<open>None\<close>).
\<close>

datatype 'j attempt =
    Rejects
  | Response nat "'j option"

datatype event =
    Fetch string            \<comment> \<open>a request was sent to the URL\<close>
  | Sleep nat               \<comment> \<open>\<^verbatim>\<open>setTimeout\<close> for so many milliseconds was awaited\<close>
  | LogError string         \<comment> \<open>\<^verbatim>\<open>console.error\<close> with this prefix\<close>

text \<open>\<^verbatim>\<open>response.ok\<close> is true exactly for the statuses 200 to 299.\<close>

definition response_ok :: "nat \<Rightarrow> bool" where
  "response_ok status = (200 \<le> status \<and> status \<le> 299)"

text \<open>
  The body of the \<^verbatim>\<open>try\<close> block of \<^verbatim>\<open>fetchWithRetry\<close> (lines 8 to 10) on one attempt:
  the parsed JSON, or the error that reaches the \<^verbatim>\<open>catch\<close>.
\<close>

fun attempt_result :: "'j attempt \<Rightarrow> js_error + 'j" where
  "attempt_result Rejects = Inl NetworkError"
| "attempt_result (Response status body) =
     (if \<not> response_ok status then Inl (HttpError status)
      else case body of None \<Rightarrow> Inl JsonParseError | Some j \<Rightarrow> Inr j)"

subsection \<open>The retrying fetcher\<close>

text \<open>
  \<^verbatim>\<open>
  async function fetchWithRetry(url, retries = 3) {
    for (let i = 0; i < retries; i++) {
      try {
        const response = await fetch(url);
        if (!response.ok) throw new Error(`HTTP ${response.status}`);
        return await response.json();
      } catch (error) {
        if (i === retries - 1) throw error;
        await new Promise(resolve => setTimeout(resolve, 1000 * Math.pow(2, i)));
      }
    }
  }
  \<close>
  The loop variable is \<open>i\<close>; \<open>net i\<close> is the outcome of the attempt made in iteration
  \<open>i\<close>. The result \<open>Inr None\<close> is the \<^verbatim>\<open>undefined\<close> of falling out of the loop.
\<close>

function fetchWithRetry_loop ::
  "(nat \<Rightarrow> 'j attempt) \<Rightarrow> string \<Rightarrow> int \<Rightarrow> nat \<Rightarrow> (js_error + 'j option) \<times> event list" where
  "fetchWithRetry_loop net url retries i =
     (if int i < retries then
        (case attempt_result (net i) of
           Inr j \<Rightarrow> (Inr (Some j), [Fetch url])
         | Inl error \<Rightarrow>
             if int i = retries - 1 then (Inl error, [Fetch url])
             else (let (r, evs) = fetchWithRetry_loop net url retries (Suc i)
                   in (r, Fetch url # Sleep (1000 * 2 ^ i) # evs)))
      else (Inr None, []))"
  by pat_completeness auto
termination
  by (relation "measure (\<lambda>(net, url, retries, i). nat (retries - int i))") auto

declare fetchWithRetry_loop.simps [simp del]

definition fetchWithRetry ::
  "(nat \<Rightarrow> 'j attempt) \<Rightarrow> string \<Rightarrow> int \<Rightarrow> (js_error + 'j option) \<times> event list" where
  "fetchWithRetry net url retries = fetchWithRetry_loop net url retries 0"

text \<open>
  The events of a call whose attempts \<open>i, \<dots>, i + k - 1\<close> fail and whose attempt
  \<open>i + k\<close> ends the loop: a request and a sleep of \<open>1000 * 2 ^ j\<close> milliseconds for each
  failed attempt \<open>j\<close>, then the last request.
\<close>

definition attempts_trace :: "string \<Rightarrow> nat \<Rightarrow> nat \<Rightarrow> event list" where
  "attempts_trace url i k =
     concat (map (\<lambda>j. [Fetch url, Sleep (1000 * 2 ^ j)]) [i..<i + k]) @ [Fetch url]"

definition is_Fetch :: "event \<Rightarrow> bool" where
  "is_Fetch e = (case e of Fetch u \<Rightarrow> True | _ \<Rightarrow> False)"

definition sleeps :: "event list \<Rightarrow> nat list" where
  "sleeps evs = concat (map (\<lambda>e. case e of Sleep ms \<Rightarrow> [ms] | _ \<Rightarrow> []) evs)"

subsection \<open>Strings and numbers of the runtime\<close>

text \<open>\<^verbatim>\<open>String.prototype.toLowerCase\<close> and \<^verbatim>\<open>toUpperCase\<close> on the ASCII letters.\<close>

definition toLowerCase_char :: "char \<Rightarrow> char" where
  "toLowerCase_char c =
     (let n = of_char c :: nat in if 65 \<le> n \<and> n \<le> 90 then char_of (n + 32) else c)"

definition toUpperCase_char :: "char \<Rightarrow> char" where
  "toUpperCase_char c =
     (let n = of_char c :: nat in if 97 \<le> n \<and> n \<le> 122 then char_of (n - 32) else c)"

definition toLowerCase :: "string \<Rightarrow> string" where
  "toLowerCase s = map toLowerCase_char s"

text \<open>\<^verbatim>\<open>s.includes(k)\<close>: \<open>k\<close> occurs in \<open>s\<close> as a contiguous substring.\<close>

fun str_includes :: "string \<Rightarrow> string \<Rightarrow> bool" where
  "str_includes [] k = (k = [])"
| "str_includes (c # s) k = (prefix k (c # s) \<or> str_includes s k)"

text \<open>The decimal digits of a number, as a template literal prints the chain id.\<close>

function string_of_nat :: "nat \<Rightarrow> string" where
  "string_of_nat n =
     (if n < 10 then [char_of (48 + n)]
      else string_of_nat (n div 10) @ [char_of (48 + n mod 10)])"
  by pat_completeness auto
termination
  by (relation "measure id") auto

declare string_of_nat.simps [simp del]

text \<open>
  \<^verbatim>\<open>parseFloat(x.toFixed(2))\<close>. \<^verbatim>\<open>toFixed\<close> prints the sign and then the integer \<open>n\<close> for
  which \<open>n / 100\<close> is closest to \<open>|x|\<close>, the larger one of two; \<^verbatim>\<open>parseFloat\<close> reads the
  digits back. (From \<open>10\<^sup>2\<^sup>1\<close> on \<^verbatim>\<open>toFixed\<close> prints the number as \<^verbatim>\<open>String(x)\<close> does; a
  double of that size is an integer, on which the rounding below is the identity.)
\<close>

definition toFixed2 :: "rat \<Rightarrow> rat" where
  "toFixed2 x =
     (if x < 0 then - (of_int \<lfloor>(- x) * 100 + 1 / 2\<rfloor> / 100)
      else of_int \<lfloor>x * 100 + 1 / 2\<rfloor> / 100)"

text \<open>\<^verbatim>\<open>v || 0\<close> on an optional number: absent, \<^verbatim>\<open>null\<close> and \<open>0\<close> are falsy.\<close>

definition or_zero :: "rat option \<Rightarrow> rat" where
  "or_zero v = (case v of None \<Rightarrow> 0 | Some x \<Rightarrow> if x = 0 then 0 else x)"

subsection \<open>The data model\<close>

text \<open>The record every adapter produces. Fields a source does not set are \<open>None\<close>.\<close>

record YieldRecord =
  protocol :: string
  stablecoin :: string
  chain :: string
  apy :: rat
  tvl :: rat
  apyBase :: "rat option"
  apyReward :: "rat option"
  type :: string
  source :: string
  maturity :: "string option"
  description :: "string option"
  url :: string
  updatedAt :: string

text \<open>One pool of the DeFiLlama document \<^verbatim>\<open>{data: [pool, ...]}\<close>.\<close>

record pool =
  pool_project :: string
  pool_symbol :: string
  pool_chain :: string
  pool_stablecoin :: bool
  pool_tvlUsd :: rat
  pool_apy :: rat
  pool_apyBase :: "rat option"
  pool_apyReward :: "rat option"

record llama_response =
  llama_data :: "pool list option"

text \<open>One market of a Pendle document \<^verbatim>\<open>{results: [market, ...]}\<close>.\<close>

record market =
  pt_symbol :: string
  underlyingAsset_symbol :: string
  totalActiveLiquidity :: rat
  impliedApy :: rat
  expiry :: string

record pendle_response =
  pendle_results :: "market list option"

text \<open>
  What a request runs against: the attempts of the DeFiLlama request, the attempts of
  the Pendle request of each chain id, and the reading of the clock.
\<close>

record world =
  llama_net :: "nat \<Rightarrow> llama_response attempt"
  pendle_net :: "nat \<Rightarrow> nat \<Rightarrow> pendle_response attempt"
  clock :: string

subsection \<open>The protocol categorizer\<close>

text \<open>
  \<^verbatim>\<open>
  function categorizeProtocol(name) {
    const categories = {
      lending: ['aave', 'compound', 'morpho', 'euler', 'spark'],
      dex: ['uniswap', 'curve', 'balancer', 'velodrome'],
    };
    const lowerName = name.toLowerCase();
    for (const [category, keywords] of Object.entries(categories)) {
      if (keywords.some(keyword => lowerName.includes(keyword))) {
        return category.charAt(0).toUpperCase() + category.slice(1);
      }
    }
    return 'Other';
  }
  \<close>
  \<^verbatim>\<open>Object.entries\<close> lists the keys in insertion order.
\<close>

definition categories :: "(string \<times> string list) list" where
  "categories =
     [(''lending'', [''aave'', ''compound'', ''morpho'', ''euler'', ''spark'']),
      (''dex'', [''uniswap'', ''curve'', ''balancer'', ''velodrome''])]"

definition capitalize :: "string \<Rightarrow> string" where
  "capitalize category =
     (case category of [] \<Rightarrow> [] | c # cs \<Rightarrow> toUpperCase_char c # cs)"

fun categorize_loop :: "string \<Rightarrow> (string \<times> string list) list \<Rightarrow> string" where
  "categorize_loop lowerName [] = ''Other''"
| "categorize_loop lowerName ((category, keywords) # rest) =
     (if list_ex (\<lambda>keyword. str_includes lowerName keyword) keywords
      then capitalize category
      else categorize_loop lowerName rest)"

definition categorizeProtocol :: "string \<Rightarrow> string" where
  "categorizeProtocol name = categorize_loop (toLowerCase name) categories"

subsection \<open>The DeFiLlama adapter\<close>

definition llama_url :: string where
  "llama_url = ''https://yields.llama.fi/pools''"

text \<open>The \<^verbatim>\<open>filter\<close> callback of lines 24 to 28.\<close>

definition llama_keep :: "pool \<Rightarrow> bool" where
  "llama_keep pool =
     (pool_stablecoin pool = True \<and> pool_tvlUsd pool > 1000000 \<and> pool_apy pool < 200)"

text \<open>The \<^verbatim>\<open>map\<close> callback of lines 30 to 42.\<close>

definition llama_record :: "string \<Rightarrow> pool \<Rightarrow> YieldRecord" where
  "llama_record now pool =
     \<lparr> protocol = pool_project pool,
       stablecoin = pool_symbol pool,
       chain = pool_chain pool,
       apy = toFixed2 (pool_apy pool),
       tvl = pool_tvlUsd pool,
       apyBase = Some (or_zero (pool_apyBase pool)),
       apyReward = Some (or_zero (pool_apyReward pool)),
       type = categorizeProtocol (pool_project pool),
       source = ''defillama'',
       maturity = None,
       description = None,
       url = ''https://defillama.com/yields?token='' @ pool_symbol pool
               @ ''&chain='' @ pool_chain pool,
       updatedAt = now \<rparr>"

definition stablecoinYields :: "string \<Rightarrow> pool list \<Rightarrow> YieldRecord list" where
  "stablecoinYields now pools = map (llama_record now) (take 30 (filter llama_keep pools))"

text \<open>
  The \<^verbatim>\<open>try\<close> block of \<^verbatim>\<open>fetchDefiLlamaYields\<close>. Reading \<^verbatim>\<open>data.data\<close> of an
  \<^verbatim>\<open>undefined\<close> document, or calling \<^verbatim>\<open>filter\<close> on an absent \<^verbatim>\<open>data.data\<close>, throws.
\<close>

definition fetchDefiLlamaYields_try ::
  "world \<Rightarrow> (js_error + YieldRecord list) \<times> event list" where
  "fetchDefiLlamaYields_try w =
     (case fetchWithRetry (llama_net w) llama_url 3 of
        (Inl error, evs) \<Rightarrow> (Inl error, evs)
      | (Inr None, evs) \<Rightarrow> (Inl TypeError, evs)
      | (Inr (Some data), evs) \<Rightarrow>
          (case llama_data data of
             None \<Rightarrow> (Inl TypeError, evs)
           | Some pools \<Rightarrow> (Inr (stablecoinYields (clock w) pools), evs)))"

text \<open>
  The whole function: the \<^verbatim>\<open>catch\<close> logs and returns \<^verbatim>\<open>[]\<close>. The result is the
  settled promise: \<open>Inr\<close> fulfilled, \<open>Inl\<close> rejected.
\<close>

definition fetchDefiLlamaYields ::
  "world \<Rightarrow> (js_error + YieldRecord list) \<times> event list" where
  "fetchDefiLlamaYields w =
     (case fetchDefiLlamaYields_try w of
        (Inr records, evs) \<Rightarrow> (Inr records, evs)
      | (Inl error, evs) \<Rightarrow> (Inr [], evs @ [LogError ''DeFi Llama fetch error:'']))"

subsection \<open>The Pendle adapter\<close>

record chain_cfg =
  chain_id :: nat
  chain_name :: string

definition pendle_chains :: "chain_cfg list" where
  "pendle_chains =
     [\<lparr> chain_id = 1, chain_name = ''Ethereum'' \<rparr>,
      \<lparr> chain_id = 42161, chain_name = ''Arbitrum'' \<rparr>]"

definition pendle_url :: "chain_cfg \<Rightarrow> string" where
  "pendle_url ch =
     ''https://api-v2.pendle.finance/core/v1/'' @ string_of_nat (chain_id ch) @ ''/markets''"

text \<open>The \<^verbatim>\<open>filter\<close> callback of lines 69 to 72.\<close>

definition pendle_keep :: "market \<Rightarrow> bool" where
  "pendle_keep market =
     (str_includes (underlyingAsset_symbol market) ''USD'' \<and> totalActiveLiquidity market > 1000000)"

text \<open>The object pushed in lines 75 to 86.\<close>

definition pendle_record :: "string \<Rightarrow> chain_cfg \<Rightarrow> market \<Rightarrow> YieldRecord" where
  "pendle_record now ch market =
     \<lparr> protocol = ''Pendle '' @ pt_symbol market,
       stablecoin = underlyingAsset_symbol market,
       chain = chain_name ch,
       apy = toFixed2 (impliedApy market * 100),
       tvl = totalActiveLiquidity market,
       apyBase = None,
       apyReward = None,
       type = ''Fixed Yield'',
       source = ''pendle'',
       maturity = Some (expiry market),
       description = None,
       url = ''https://app.pendle.finance/'',
       updatedAt = now \<rparr>"

text \<open>
  The inner \<^verbatim>\<open>try\<close> block for one chain, started with the records pushed so far.
  \<^verbatim>\<open>if (data.results)\<close> skips an absent list; an array is truthy even when empty.
\<close>

definition pendle_chain_try ::
  "world \<Rightarrow> chain_cfg \<Rightarrow> YieldRecord list \<Rightarrow> (js_error + YieldRecord list) \<times> event list" where
  "pendle_chain_try w ch allYields =
     (case fetchWithRetry (pendle_net w (chain_id ch)) (pendle_url ch) 3 of
        (Inl error, evs) \<Rightarrow> (Inl error, evs)
      | (Inr None, evs) \<Rightarrow> (Inl TypeError, evs)
      | (Inr (Some data), evs) \<Rightarrow>
          (case pendle_results data of
             None \<Rightarrow> (Inr allYields, evs)
           | Some results \<Rightarrow>
               (Inr (allYields @ map (pendle_record (clock w) ch)
                                    (take 5 (filter pendle_keep results))), evs)))"

text \<open>One iteration of the loop over the chains: the inner \<^verbatim>\<open>catch\<close> only logs.\<close>

definition pendle_chain ::
  "world \<Rightarrow> chain_cfg \<Rightarrow> YieldRecord list \<Rightarrow> YieldRecord list \<times> event list" where
  "pendle_chain w ch allYields =
     (case pendle_chain_try w ch allYields of
        (Inr ys, evs) \<Rightarrow> (ys, evs)
      | (Inl error, evs) \<Rightarrow>
          (allYields, evs @ [LogError (''Pendle '' @ chain_name ch @ '' fetch error:'')]))"

fun pendle_loop ::
  "world \<Rightarrow> chain_cfg list \<Rightarrow> YieldRecord list \<Rightarrow> YieldRecord list \<times> event list" where
  "pendle_loop w [] allYields = (allYields, [])"
| "pendle_loop w (ch # rest) allYields =
     (let (ys, evs) = pendle_chain w ch allYields;
          (zs, evs') = pendle_loop w rest ys
      in (zs, evs @ evs'))"

text \<open>The outer \<^verbatim>\<open>try\<close> block, then the whole function with its outer \<^verbatim>\<open>catch\<close>.\<close>

definition fetchPendleYields_try ::
  "world \<Rightarrow> (js_error + YieldRecord list) \<times> event list" where
  "fetchPendleYields_try w =
     (let (allYields, evs) = pendle_loop w pendle_chains [] in (Inr allYields, evs))"

definition fetchPendleYields ::
  "world \<Rightarrow> (js_error + YieldRecord list) \<times> event list" where
  "fetchPendleYields w =
     (case fetchPendleYields_try w of
        (Inr allYields, evs) \<Rightarrow> (Inr allYields, evs)
      | (Inl error, evs) \<Rightarrow> (Inr [], evs @ [LogError ''Pendle fetch error:'']))"

subsection \<open>The manual adapter\<close>

definition getManualYieldData :: "string \<Rightarrow> YieldRecord list" where
  "getManualYieldData now =
     [\<lparr> protocol = ''Midas mTBILL'', stablecoin = ''USDC'', chain = ''Ethereum'',
        apy = 5.25, tvl = 45000000, apyBase = None, apyReward = None,
        type = ''RWA'', source = ''midas'', maturity = None,
        description = Some ''BlackRock Treasury Bond backed'',
        url = ''https://midas.app/'', updatedAt = now \<rparr>,
      \<lparr> protocol = ''Gauntlet USD Alpha'', stablecoin = ''USDC'', chain = ''Multi-chain'',
        apy = 8.5, tvl = 250000000, apyBase = None, apyReward = None,
        type = ''Risk-Managed'', source = ''gauntlet'', maturity = None,
        description = Some ''Institutional-grade risk-adjusted yield'',
        url = ''https://www.gauntlet.xyz/'', updatedAt = now \<rparr>,
      \<lparr> protocol = ''YieldFi yUSD'', stablecoin = ''USDC/USDT'', chain = ''Multi-chain'',
        apy = 23.5, tvl = 121000000, apyBase = None, apyReward = None,
        type = ''Multi-Strategy'', source = ''yieldfi'', maturity = None,
        description = Some ''Professional asset management'',
        url = ''https://yield.fi/'', updatedAt = now \<rparr>]"

subsection \<open>Statistics and the request handler\<close>

record YieldStats =
  totalOpportunities :: nat
  totalTVL :: rat
  avgAPY :: rat
  maxAPY :: rat
  minAPY :: rat
  sources :: "string list"
  chains :: "string list"
  stats_updatedAt :: string

text \<open>
  \<^verbatim>\<open>[...new Set(xs)]\<close>: a \<^verbatim>\<open>Set\<close> keeps its members in the order of their first
  insertion, and adding a member again changes nothing.
\<close>

definition Set_add :: "'a list \<Rightarrow> 'a \<Rightarrow> 'a list" where
  "Set_add s x = (if x \<in> set s then s else s @ [x])"

definition new_Set :: "'a list \<Rightarrow> 'a list" where
  "new_Set xs = foldl Set_add [] xs"

text \<open>
  Lines 200 to 211. \<^verbatim>\<open>Math.max(...xs)\<close> and \<^verbatim>\<open>Math.min(...xs)\<close> are only evaluated under
  the guard \<^verbatim>\<open>allYields.length > 0\<close>, which is the second case of the list.
\<close>

definition compute_stats :: "string \<Rightarrow> YieldRecord list \<Rightarrow> YieldStats" where
  "compute_stats now allYields =
     \<lparr> totalOpportunities = length allYields,
       totalTVL = foldl (\<lambda>sum y. sum + tvl y) 0 allYields,
       avgAPY = (if length allYields > 0
                 then foldl (\<lambda>sum y. sum + apy y) 0 allYields / of_nat (length allYields)
                 else 0),
       maxAPY = (case map apy allYields of [] \<Rightarrow> 0 | a # as \<Rightarrow> foldl max a as),
       minAPY = (case map apy allYields of [] \<Rightarrow> 0 | a # as \<Rightarrow> foldl min a as),
       sources = new_Set (map source allYields),
       chains = new_Set (map chain allYields),
       stats_updatedAt = now \<rparr>"

record request =
  req_method :: string

datatype json_body =
    NoBody
  | Failure string "js_error option"
  | Success "YieldRecord list" YieldStats

record response =
  res_status :: nat
  res_headers :: "(string \<times> string) list"
  res_body :: json_body

definition cors_headers :: "(string \<times> string) list" where
  "cors_headers =
     [(''Access-Control-Allow-Origin'', ''*''),
      (''Access-Control-Allow-Methods'', ''GET, OPTIONS''),
      (''Access-Control-Allow-Headers'', ''Content-Type''),
      (''Cache-Control'', ''s-maxage=300, stale-while-revalidate'')]"

text \<open>The value a settled promise contributes to the merge (lines 194 to 196).\<close>

definition fulfilled_or_empty :: "js_error + 'a list \<Rightarrow> 'a list" where
  "fulfilled_or_empty p = (case p of Inr v \<Rightarrow> v | Inl reason \<Rightarrow> [])"

text \<open>
  The \<^verbatim>\<open>try\<close> block of the handler. \<^verbatim>\<open>Promise.allSettled\<close> waits for the three promises
  and never rejects; the adapters share no state, so each is run on the same world.
\<close>

definition handler_try :: "world \<Rightarrow> js_error + response" where
  "handler_try w =
     (let defiLlama = fst (fetchDefiLlamaYields w);
          pendle = fst (fetchPendleYields w);
          manual = Inr (getManualYieldData (clock w));
          allYields = fulfilled_or_empty defiLlama @ fulfilled_or_empty pendle
                        @ fulfilled_or_empty manual;
          stats = compute_stats (clock w) allYields
      in Inr \<lparr> res_status = 200, res_headers = cors_headers,
               res_body = Success allYields stats \<rparr>)"

definition handler :: "world \<Rightarrow> request \<Rightarrow> response" where
  "handler w req =
     (if req_method req = ''OPTIONS'' then
        \<lparr> res_status = 200, res_headers = cors_headers, res_body = NoBody \<rparr>
      else if req_method req \<noteq> ''GET'' then
        \<lparr> res_status = 405, res_headers = cors_headers,
          res_body = Failure ''Method not allowed'' None \<rparr>
      else
        (case handler_try w of
           Inr res \<Rightarrow> res
         | Inl error \<Rightarrow>
             \<lparr> res_status = 500, res_headers = cors_headers,
               res_body = Failure ''Failed to fetch yield data'' (Some error) \<rparr>))"

subsection \<open>Reading a number as rounded to two decimals\<close>


subsection \<open>Example inputs\<close>

text \<open>
  Upstream documents and networks on which the adapters are run below: a DeFiLlama
  document whose first attempt answers 503, a Pendle network whose Ethereum request
  never connects, a DeFiLlama document with forty matching pools, and an outage of both
  upstream services.
\<close>

definition example_now :: string where
  "example_now = ''2026-01-01T00:00:00.000Z''"

definition weth_pool :: pool where
  "weth_pool = \<lparr> pool_project = ''uniswap-v3'', pool_symbol = ''WETH-USDC'', pool_chain = ''Ethereum'',
       pool_stablecoin = False, pool_tvlUsd = 9000000, pool_apy = 12,
       pool_apyBase = Some 12, pool_apyReward = None \<rparr>"

definition usdc_pool :: pool where
  "usdc_pool = \<lparr> pool_project = ''aave-v3'', pool_symbol = ''USDC'', pool_chain = ''Ethereum'',
       pool_stablecoin = True, pool_tvlUsd = 2000000, pool_apy = 5.127,
       pool_apyBase = Some 5.127, pool_apyReward = None \<rparr>"

definition small_pool :: pool where
  "small_pool = \<lparr> pool_project = ''spark'', pool_symbol = ''DAI'', pool_chain = ''Ethereum'',
       pool_stablecoin = True, pool_tvlUsd = 1000000, pool_apy = 4,
       pool_apyBase = Some 4, pool_apyReward = Some 0 \<rparr>"

definition negative_pool :: pool where
  "negative_pool = \<lparr> pool_project = ''curve-dex'', pool_symbol = ''USDT-USDC'', pool_chain = ''Arbitrum'',
       pool_stablecoin = True, pool_tvlUsd = 5000000, pool_apy = - 5,
       pool_apyBase = Some (- 5), pool_apyReward = None \<rparr>"

definition broken_pool :: pool where
  "broken_pool = \<lparr> pool_project = ''random-protocol'', pool_symbol = ''USDX'', pool_chain = ''Base'',
       pool_stablecoin = True, pool_tvlUsd = 3000000, pool_apy = 250,
       pool_apyBase = None, pool_apyReward = Some 250 \<rparr>"

definition example_pools :: "pool list" where
  "example_pools = [weth_pool, usdc_pool, small_pool, negative_pool, broken_pool]"

definition weth_market :: market where
  "weth_market = \<lparr> pt_symbol = ''PT-wstETH'', underlyingAsset_symbol = ''WETH'',
       totalActiveLiquidity = 9000000, impliedApy = 0.03, expiry = ''2026-06-25T00:00:00.000Z'' \<rparr>"

definition susde_market :: market where
  "susde_market = \<lparr> pt_symbol = ''PT-sUSDe'', underlyingAsset_symbol = ''sUSDe'',
       totalActiveLiquidity = 5000000, impliedApy = 0.0875, expiry = ''2026-03-26T00:00:00.000Z'' \<rparr>"

definition thin_market :: market where
  "thin_market = \<lparr> pt_symbol = ''PT-USDC'', underlyingAsset_symbol = ''USDC'',
       totalActiveLiquidity = 1000000, impliedApy = 0.05, expiry = ''2026-03-26T00:00:00.000Z'' \<rparr>"

definition usd0_market :: market where
  "usd0_market = \<lparr> pt_symbol = ''PT-USD0++'', underlyingAsset_symbol = ''USD0++'',
       totalActiveLiquidity = 2500000, impliedApy = 0.1101, expiry = ''2026-09-24T00:00:00.000Z'' \<rparr>"

definition example_markets :: "market list" where
  "example_markets = [weth_market, susde_market, thin_market] @ replicate 6 usd0_market"

definition example_world :: world where
  "example_world =
     \<lparr> llama_net = (\<lambda>i. if i = 0 then Response 503 None
                     else Response 200 (Some \<lparr> llama_data = Some example_pools \<rparr>)),
       pendle_net = (\<lambda>c i. if c = 42161
                       then Response 200 (Some \<lparr> pendle_results = Some example_markets \<rparr>)
                       else Rejects),
       clock = example_now \<rparr>"

definition crowded_world :: world where
  "crowded_world =
     \<lparr> llama_net = (\<lambda>i. Response 200 (Some \<lparr> llama_data = Some (replicate 40 usdc_pool) \<rparr>)),
       pendle_net = (\<lambda>c i. Response 200 (Some \<lparr> pendle_results = None \<rparr>)),
       clock = example_now \<rparr>"

definition outage_world :: world where
  "outage_world =
     \<lparr> llama_net = (\<lambda>i. Rejects),
       pendle_net = (\<lambda>c i. Response 500 None),
       clock = example_now \<rparr>"

definition GET :: request where
  "GET = \<lparr> req_method = ''GET'' \<rparr>"

section \<open>Properties of the retrying fetcher\<close>

lemma attempts_trace_Suc:
  "attempts_trace u i (Suc k) = Fetch u # Sleep (1000 * 2 ^ i) # attempts_trace u (Suc i) k"
  by (simp add: attempts_trace_def upt_conv_Cons)

lemma loop_all_fail:
  "\<forall>j\<le>k. isl (attempt_result (net (i + j))) \<Longrightarrow>
   fetchWithRetry_loop net u (int (i + k) + 1) i =
     (Inl (projl (attempt_result (net (i + k)))), attempts_trace u i k)"
proof (induction k arbitrary: i)
  case 0
  then obtain e where "attempt_result (net i) = Inl e" by (cases "attempt_result (net i)") auto
  then show ?case
    by (simp add: fetchWithRetry_loop.simps [of net u _ i] attempts_trace_def)
next
  case (Suc k)
  have "isl (attempt_result (net (i + 0)))" using Suc.prems by blast
  then obtain e where e: "attempt_result (net i) = Inl e" by (cases "attempt_result (net i)") auto
  have "\<forall>j\<le>k. isl (attempt_result (net (Suc i + j)))"
    using Suc.prems by (metis add_Suc_shift Suc_le_mono)
  from Suc.IH [OF this] show ?case
    by (simp add: fetchWithRetry_loop.simps [of net u _ i] e attempts_trace_Suc)
qed

lemma loop_first_success:
  "\<forall>j<k. isl (attempt_result (net (i + j))) \<Longrightarrow> attempt_result (net (i + k)) = Inr v \<Longrightarrow>
   int (i + k) < retries \<Longrightarrow>
   fetchWithRetry_loop net u retries i = (Inr (Some v), attempts_trace u i k)"
proof (induction k arbitrary: i)
  case 0
  then show ?case
    by (simp add: fetchWithRetry_loop.simps [of net u _ i] attempts_trace_def)
next
  case (Suc k)
  have "isl (attempt_result (net (i + 0)))" using Suc.prems by blast
  then obtain e where e: "attempt_result (net i) = Inl e" by (cases "attempt_result (net i)") auto
  have a: "\<forall>j<k. isl (attempt_result (net (Suc i + j)))"
    using Suc.prems(1) by (metis add_Suc_shift Suc_less_eq)
  have b: "attempt_result (net (Suc i + k)) = Inr v" using Suc.prems(2) by simp
  have c: "int (Suc i + k) < retries" using Suc.prems(3) by simp
  from Suc.IH [OF a b c] c show ?case
    by (simp add: fetchWithRetry_loop.simps [of net u _ i] e attempts_trace_Suc)
qed

lemma loop_no_attempts: "retries \<le> int i \<Longrightarrow> fetchWithRetry_loop net u retries i = (Inr None, [])"
  by (simp add: fetchWithRetry_loop.simps [of net u _ i])

lemma filter_is_Fetch_trace: "length (filter is_Fetch (attempts_trace u i k)) = Suc k"
  by (induction k arbitrary: i) (simp_all add: attempts_trace_Suc is_Fetch_def, simp add: attempts_trace_def is_Fetch_def)

lemma sleeps_trace: "sleeps (attempts_trace u i k) = map (\<lambda>j. 1000 * 2 ^ j) [i..<i + k]"
  by (induction k arbitrary: i) (simp_all add: attempts_trace_Suc sleeps_def upt_conv_Cons, simp add: attempts_trace_def)


text \<open>
  Claim C2. For every number of attempts \<open>n \<ge> 1\<close>: if every attempt fails, the call
  sends exactly \<open>n\<close> requests, sleeps \<open>1000 * 2 ^ i\<close> milliseconds after the failed
  attempt \<open>i\<close> for each \<open>i < n - 1\<close> (1 s, 2 s, 4 s, ...), and throws the error of the
  last attempt without sleeping again; and if attempt \<open>k < n\<close> is the first to succeed,
  the call returns its parsed JSON body at once, after the \<open>k\<close> failed attempts and
  their sleeps.
\<close>

theorem fetchWithRetry_backoff:
  "1 \<le> n \<Longrightarrow>
   ((\<forall>i<n. attempt_result (net i) = Inl (err i)) \<longrightarrow>
      fst (fetchWithRetry net u (int n)) = Inl (err (n - 1)) \<and>
      snd (fetchWithRetry net u (int n)) =
        concat (map (\<lambda>i. [Fetch u, Sleep (1000 * 2 ^ i)]) [0..<n - 1]) @ [Fetch u] \<and>
      length (filter is_Fetch (snd (fetchWithRetry net u (int n)))) = n \<and>
      sleeps (snd (fetchWithRetry net u (int n))) = map (\<lambda>i. 1000 * 2 ^ i) [0..<n - 1]) \<and>
   (\<forall>k<n. (\<forall>i<k. isl (attempt_result (net i))) \<and> attempt_result (net k) = Inr body \<longrightarrow>
      fetchWithRetry net u (int n) =
        (Inr (Some body), concat (map (\<lambda>i. [Fetch u, Sleep (1000 * 2 ^ i)]) [0..<k]) @ [Fetch u]))"
proof (intro conjI impI allI)
  assume n: "1 \<le> n" and fail: "\<forall>i<n. attempt_result (net i) = Inl (err i)"
  have "\<forall>j\<le>n - 1. isl (attempt_result (net (0 + j)))"
    using n fail by (simp add: Suc_le_eq)
  from loop_all_fail [OF this, of u] n fail
  have r: "fetchWithRetry net u (int n) = (Inl (err (n - 1)), attempts_trace u 0 (n - 1))"
    by (simp add: fetchWithRetry_def of_nat_diff)
  show "fst (fetchWithRetry net u (int n)) = Inl (err (n - 1))"
    by (simp add: r)
  show "snd (fetchWithRetry net u (int n)) =
        concat (map (\<lambda>i. [Fetch u, Sleep (1000 * 2 ^ i)]) [0..<n - 1]) @ [Fetch u]"
    by (simp add: r attempts_trace_def)
  show "length (filter is_Fetch (snd (fetchWithRetry net u (int n)))) = n"
    using n by (simp add: r filter_is_Fetch_trace)
  show "sleeps (snd (fetchWithRetry net u (int n))) = map (\<lambda>i. 1000 * 2 ^ i) [0..<n - 1]"
    using sleeps_trace [of u 0 "n - 1"] by (simp add: r)
next
  fix k
  assume "k < n" and h: "(\<forall>i<k. isl (attempt_result (net i))) \<and> attempt_result (net k) = Inr body"
  then have "fetchWithRetry net u (int n) = (Inr (Some body), attempts_trace u 0 k)"
    using loop_first_success [of k net 0 body "int n" u] by (simp add: fetchWithRetry_def)
  then show "fetchWithRetry net u (int n) =
        (Inr (Some body), concat (map (\<lambda>i. [Fetch u, Sleep (1000 * 2 ^ i)]) [0..<k]) @ [Fetch u])"
    by (simp add: attempts_trace_def)
qed

theorem fetchWithRetry_backoff_witness:
  "fetchWithRetry (\<lambda>i. Response 500 (None :: nat option)) ''u'' 3 =
     (Inl (HttpError 500), [Fetch ''u'', Sleep 1000, Fetch ''u'', Sleep 2000, Fetch ''u'']) \<and>
   fetchWithRetry (\<lambda>i. if i = 0 then Rejects else Response 200 (Some (7 :: nat))) ''u'' 3 =
     (Inr (Some 7), [Fetch ''u'', Sleep 1000, Fetch ''u''])"
proof -
  have u2: "[0..<2] = [0, Suc 0]" by (simp add: upt_conv_Cons)
  have a: "fst (fetchWithRetry (\<lambda>i. Response 500 (None :: nat option)) ''u'' 3) = Inl (HttpError 500) \<and>
     snd (fetchWithRetry (\<lambda>i. Response 500 (None :: nat option)) ''u'' 3) =
       [Fetch ''u'', Sleep 1000, Fetch ''u'', Sleep 2000, Fetch ''u'']"
    using fetchWithRetry_backoff [of 3 "\<lambda>i. Response 500 (None :: nat option)" "\<lambda>i. HttpError 500" "''u''"]
    by (simp add: response_ok_def u2)
  let ?net = "\<lambda>i :: nat. if i = 0 then Rejects else Response 200 (Some (7 :: nat))"
  have three: "1 \<le> (3 :: nat)" by simp
  have h: "(\<forall>i<1. isl (attempt_result (?net i))) \<and> attempt_result (?net 1) = Inr 7"
    by (simp add: response_ok_def)
  note fetchWithRetry_backoff [OF three, of ?net "\<lambda>i. NetworkError" "''u''" 7, THEN conjunct2, rule_format, of 1]
  with h have b: "fetchWithRetry ?net ''u'' 3 = (Inr (Some 7), [Fetch ''u'', Sleep 1000, Fetch ''u''])"
    by simp
  from a b show ?thesis by (simp add: prod_eq_iff)
qed

text \<open>
  Claim C10. Called with \<open>retries \<le> 0\<close> the loop body never runs: no request is sent,
  no error is thrown and the result is \<^verbatim>\<open>undefined\<close>, not a parsed JSON body. (With
  \<open>retries = 1\<close> the same network gives the body.)
\<close>

theorem fetchWithRetry_no_attempts:
  "retries \<le> 0 \<Longrightarrow> fetchWithRetry net u retries = (Inr None, [])"
  by (simp add: fetchWithRetry_def loop_no_attempts)

theorem fetchWithRetry_no_attempts_witness:
  "fetchWithRetry (\<lambda>i. Response 200 (Some (7 :: nat))) ''u'' 0 = (Inr None, []) \<and>
   fetchWithRetry (\<lambda>i. Response 200 (Some (7 :: nat))) ''u'' (- 2) = (Inr None, []) \<and>
   fetchWithRetry (\<lambda>i. Response 200 (Some (7 :: nat))) ''u'' 1 = (Inr (Some 7), [Fetch ''u''])"
proof -
  have c: "fetchWithRetry (\<lambda>i. Response 200 (Some (7 :: nat))) ''u'' 1 = (Inr (Some 7), [Fetch ''u''])"
    by (simp add: fetchWithRetry_def fetchWithRetry_loop.simps response_ok_def)
  from fetchWithRetry_no_attempts [of 0 "\<lambda>i. Response 200 (Some (7 :: nat))" "''u''"]
       fetchWithRetry_no_attempts [of "- 2" "\<lambda>i. Response 200 (Some (7 :: nat))" "''u''"] c
  show ?thesis by simp
qed


section \<open>Properties of the categorizer\<close>

lemma toLowerCase_char_idem: "toLowerCase_char (toLowerCase_char c) = toLowerCase_char c"
  by (simp add: toLowerCase_char_def Let_def)

lemma toLowerCase_idem: "toLowerCase (toLowerCase s) = toLowerCase s"
  by (simp add: toLowerCase_def toLowerCase_char_idem)

lemma str_includes_sublist: "str_includes s k = sublist k s"
  by (induction s) (auto simp: sublist_Cons_right)

lemma categorize_loop_find:
  "categorize_loop l tab =
     (case find (\<lambda>(category, keywords). \<exists>keyword\<in>set keywords. str_includes l keyword) tab of
        None \<Rightarrow> ''Other''
      | Some (category, keywords) \<Rightarrow> capitalize category)"
  by (induction l tab rule: categorize_loop.induct) (auto simp: list_ex_iff)

lemma categorize_loop_range:
  "categorize_loop l categories \<in> {''Lending'', ''Dex'', ''Other''}"
proof -
  have a: "capitalize ''lending'' = ''Lending''" by code_simp
  have b: "capitalize ''dex'' = ''Dex''" by code_simp
  show ?thesis unfolding categories_def by (simp add: a b)
qed


text \<open>
  Claim C7. For every name \<open>s\<close> the categorizer gives the same label for \<open>s\<close> and for
  the lowercased \<open>s\<close>; the label is the capitalized key of the first entry of the table,
  in table order, one of whose keywords is a substring of the lowercased name, and
  \<^verbatim>\<open>Other\<close> when there is none; so it is one of \<^verbatim>\<open>Lending\<close>, \<^verbatim>\<open>Dex\<close>, \<^verbatim>\<open>Other\<close>. In
  particular \<^verbatim>\<open>Aave V3\<close> is \<^verbatim>\<open>Lending\<close>, \<^verbatim>\<open>Uniswap V3\<close> is \<^verbatim>\<open>Dex\<close> and
  \<^verbatim>\<open>Random Protocol\<close> is \<^verbatim>\<open>Other\<close>. (Being a function of the name alone, the result is
  deterministic.)
\<close>

theorem categorize_first_match:
  "categorizeProtocol (toLowerCase s) = categorizeProtocol s \<and>
   categorizeProtocol s =
     (case find (\<lambda>(category, keywords). \<exists>keyword\<in>set keywords. str_includes (toLowerCase s) keyword)
             categories of
        None \<Rightarrow> ''Other''
      | Some (category, keywords) \<Rightarrow> capitalize category) \<and>
   categorizeProtocol s \<in> {''Lending'', ''Dex'', ''Other''} \<and>
   categorizeProtocol ''Aave V3'' = ''Lending'' \<and>
   categorizeProtocol ''Uniswap V3'' = ''Dex'' \<and>
   categorizeProtocol ''Random Protocol'' = ''Other''"
proof -
  have 1: "categorizeProtocol (toLowerCase s) = categorizeProtocol s"
    by (simp add: categorizeProtocol_def toLowerCase_idem)
  have 2: "categorizeProtocol s =
     (case find (\<lambda>(category, keywords). \<exists>keyword\<in>set keywords. str_includes (toLowerCase s) keyword)
             categories of
        None \<Rightarrow> ''Other''
      | Some (category, keywords) \<Rightarrow> capitalize category)"
    unfolding categorizeProtocol_def by (rule categorize_loop_find)
  have 3: "categorizeProtocol s \<in> {''Lending'', ''Dex'', ''Other''}"
    unfolding categorizeProtocol_def by (rule categorize_loop_range)
  have 4: "categorizeProtocol ''Aave V3'' = ''Lending''" by code_simp
  have 5: "categorizeProtocol ''Uniswap V3'' = ''Dex''" by code_simp
  have 6: "categorizeProtocol ''Random Protocol'' = ''Other''" by code_simp
  from 1 2 3 4 5 6 show ?thesis by blast
qed

theorem categorize_first_match_witness:
  "categorizeProtocol (toLowerCase ''Curve on AAVE'') = ''Lending'' \<and>
   categorizeProtocol ''Curve on AAVE'' = ''Lending'' \<and>
   categorizeProtocol ''CURVE'' = ''Dex''"
proof -
  have a: "categorizeProtocol ''Curve on AAVE'' = ''Lending''" by code_simp
  have b: "categorizeProtocol ''CURVE'' = ''Dex''" by code_simp
  from categorize_first_match [of "''Curve on AAVE''"] a b show ?thesis by simp
qed


section \<open>Properties of the statistics\<close>











section \<open>Properties of the DeFiLlama adapter\<close>

lemma fetchDefiLlamaYields_cases:
  "fst (fetchDefiLlamaYields w) =
     (case fst (fetchWithRetry (llama_net w) llama_url 3) of
        Inr (Some data) \<Rightarrow>
          (case llama_data data of
             Some pools \<Rightarrow> Inr (stablecoinYields (clock w) pools)
           | None \<Rightarrow> Inr [])
      | _ \<Rightarrow> Inr [])"
  by (simp add: fetchDefiLlamaYields_def fetchDefiLlamaYields_try_def
           split: prod.splits sum.splits option.splits)

lemma llama_keep_iff:
  "llama_keep q \<longleftrightarrow> pool_stablecoin q \<and> 1000000 < pool_tvlUsd q \<and> pool_apy q < 200"
  by (simp add: llama_keep_def)

lemma subseq_take_filter: "subseq (take n (filter P xs)) xs"
proof -
  have "subseq (take n (filter P xs)) (filter P xs)"
    by (rule prefix_imp_subseq) (rule take_is_prefix)
  moreover have "subseq (filter P xs) xs" by (rule subseq_filter_left)
  ultimately show ?thesis by (rule subseq_order.order_trans)
qed

text \<open>
  Claim C3. For every network, the adapter returns the records of a list \<open>qs\<close> of pools
  with at most 30 members, each flagged as a stablecoin pool with \<^verbatim>\<open>tvlUsd > 1000000\<close>
  and \<^verbatim>\<open>apy < 200\<close>; and whenever the fetcher delivered a document with a pool list,
  \<open>qs\<close> is the first 30 matching pools of that list, in the order of the list (a
  subsequence of it).
\<close>

theorem defillama_filter_cap_order:
  "\<exists>qs. fst (fetchDefiLlamaYields w) = Inr (map (llama_record (clock w)) qs) \<and>
        length qs \<le> 30 \<and>
        (\<forall>q\<in>set qs. pool_stablecoin q \<and> 1000000 < pool_tvlUsd q \<and> pool_apy q < 200) \<and>
        (\<forall>data pools.
           fst (fetchWithRetry (llama_net w) llama_url 3) = Inr (Some data) \<and>
           llama_data data = Some pools \<longrightarrow>
           subseq qs pools \<and>
           qs = take 30 (filter (\<lambda>q. pool_stablecoin q \<and> 1000000 < pool_tvlUsd q \<and> pool_apy q < 200)
                          pools))"
proof -
  have keep: "llama_keep = (\<lambda>q. pool_stablecoin q \<and> 1000000 < pool_tvlUsd q \<and> pool_apy q < 200)"
    by (rule ext) (rule llama_keep_iff)
  show ?thesis
  proof (cases "\<exists>data pools. fst (fetchWithRetry (llama_net w) llama_url 3) = Inr (Some data) \<and>
                  llama_data data = Some pools")
    case True
    then obtain data pools where
      d: "fst (fetchWithRetry (llama_net w) llama_url 3) = Inr (Some data)" and
      p: "llama_data data = Some pools" by blast
    let ?qs = "take 30 (filter llama_keep pools)"
    have r: "fst (fetchDefiLlamaYields w) = Inr (map (llama_record (clock w)) ?qs)"
      unfolding fetchDefiLlamaYields_cases d by (simp add: p stablecoinYields_def)
    have l: "length ?qs \<le> 30" by simp
    have k: "\<forall>q\<in>set ?qs. pool_stablecoin q \<and> 1000000 < pool_tvlUsd q \<and> pool_apy q < 200"
    proof
      fix q assume "q \<in> set ?qs"
      then have "q \<in> set (filter llama_keep pools)" by (rule in_set_takeD)
      then show "pool_stablecoin q \<and> 1000000 < pool_tvlUsd q \<and> pool_apy q < 200"
        by (simp add: llama_keep_iff)
    qed
    have s: "subseq ?qs pools" by (rule subseq_take_filter)
    have u: "\<forall>data' pools'.
           fst (fetchWithRetry (llama_net w) llama_url 3) = Inr (Some data') \<and>
           llama_data data' = Some pools' \<longrightarrow>
           subseq ?qs pools' \<and>
           ?qs = take 30 (filter (\<lambda>q. pool_stablecoin q \<and> 1000000 < pool_tvlUsd q \<and> pool_apy q < 200)
                          pools')"
      using s p unfolding d keep [symmetric] by auto
    from r l k u show ?thesis by blast
  next
    case False
    then have "fst (fetchDefiLlamaYields w) = Inr []"
      unfolding fetchDefiLlamaYields_cases by (auto split: sum.splits option.splits)
    then have e: "fst (fetchDefiLlamaYields w) = Inr (map (llama_record (clock w)) [])" by simp
    show ?thesis
    proof (intro exI [of _ "[]"] conjI)
      show "fst (fetchDefiLlamaYields w) = Inr (map (llama_record (clock w)) [])" by (rule e)
      show "length ([] :: pool list) \<le> 30" by simp
      show "\<forall>q\<in>set []. pool_stablecoin q \<and> 1000000 < pool_tvlUsd q \<and> pool_apy q < 200" by simp
      show "\<forall>data pools.
           fst (fetchWithRetry (llama_net w) llama_url 3) = Inr (Some data) \<and>
           llama_data data = Some pools \<longrightarrow>
           subseq [] pools \<and>
           [] = take 30 (filter (\<lambda>q. pool_stablecoin q \<and> 1000000 < pool_tvlUsd q \<and> pool_apy q < 200)
                          pools)"
        using False by blast
    qed
  qed
qed

theorem defillama_filter_cap_order_witness:
  "fst (fetchWithRetry (llama_net example_world) llama_url 3) =
     Inr (Some \<lparr> llama_data = Some example_pools \<rparr>) \<and>
   fst (fetchDefiLlamaYields example_world) =
     Inr (map (llama_record (clock example_world)) [usdc_pool, negative_pool]) \<and>
   subseq [usdc_pool, negative_pool] example_pools \<and>
   length (fulfilled_or_empty (fst (fetchDefiLlamaYields crowded_world))) = 30"
proof -
  have f: "fst (fetchWithRetry (llama_net example_world) llama_url 3) =
     Inr (Some \<lparr> llama_data = Some example_pools \<rparr>)"
    by code_simp
  have k: "take 30 (filter (\<lambda>q. pool_stablecoin q \<and> 1000000 < pool_tvlUsd q \<and> pool_apy q < 200)
             example_pools) = [usdc_pool, negative_pool]"
    by code_simp
  have c: "length (fulfilled_or_empty (fst (fetchDefiLlamaYields crowded_world))) = 30"
    by code_simp
  from defillama_filter_cap_order [of example_world] obtain qs where
    r: "fst (fetchDefiLlamaYields example_world) = Inr (map (llama_record (clock example_world)) qs)"
    and u: "\<forall>data pools.
           fst (fetchWithRetry (llama_net example_world) llama_url 3) = Inr (Some data) \<and>
           llama_data data = Some pools \<longrightarrow>
           subseq qs pools \<and>
           qs = take 30 (filter (\<lambda>q. pool_stablecoin q \<and> 1000000 < pool_tvlUsd q \<and> pool_apy q < 200)
                          pools)"
    by blast
  have d: "llama_data \<lparr> llama_data = Some example_pools \<rparr> = Some example_pools" by simp
  from u f d have "subseq qs example_pools \<and>
     qs = take 30 (filter (\<lambda>q. pool_stablecoin q \<and> 1000000 < pool_tvlUsd q \<and> pool_apy q < 200)
             example_pools)"
    by blast
  then have s: "subseq qs example_pools" and q: "qs = [usdc_pool, negative_pool]"
    unfolding k by blast+
  from r f c s show ?thesis unfolding q by blast
qed

section \<open>Properties of the Pendle adapter\<close>

lemma pendle_chain_cases:
  "fst (pendle_chain w ch acc) =
     (case fst (fetchWithRetry (pendle_net w (chain_id ch)) (pendle_url ch) 3) of
        Inr (Some data) \<Rightarrow>
          (case pendle_results data of
             Some results \<Rightarrow>
               acc @ map (pendle_record (clock w) ch) (take 5 (filter pendle_keep results))
           | None \<Rightarrow> acc)
      | _ \<Rightarrow> acc)"
  by (simp add: pendle_chain_def pendle_chain_try_def
           split: prod.splits sum.splits option.splits)

lemma pendle_chain_append: "fst (pendle_chain w ch acc) = acc @ fst (pendle_chain w ch [])"
  unfolding pendle_chain_cases by (simp split: sum.splits option.splits)

lemma pendle_loop_concat:
  "fst (pendle_loop w chs acc) = acc @ concat (map (\<lambda>ch. fst (pendle_chain w ch [])) chs)"
proof (induction chs arbitrary: acc)
  case Nil
  show ?case by simp
next
  case (Cons ch chs)
  have "fst (pendle_loop w (ch # chs) acc) = fst (pendle_loop w chs (fst (pendle_chain w ch acc)))"
    by (simp split: prod.splits)
  also have "\<dots> = fst (pendle_chain w ch acc) @ concat (map (\<lambda>ch. fst (pendle_chain w ch [])) chs)"
    by (rule Cons.IH)
  also have "\<dots> = acc @ concat (map (\<lambda>ch. fst (pendle_chain w ch [])) (ch # chs))"
    using pendle_chain_append [of w ch acc] by simp
  finally show ?case .
qed

lemma fetchPendleYields_concat:
  "fst (fetchPendleYields w) = Inr (concat (map (\<lambda>ch. fst (pendle_chain w ch [])) pendle_chains))"
  using pendle_loop_concat [of w pendle_chains "[]"]
  by (cases "pendle_loop w pendle_chains []")
     (simp add: fetchPendleYields_def fetchPendleYields_try_def)

lemma pendle_chain_length: "length (fst (pendle_chain w ch [])) \<le> 5"
  unfolding pendle_chain_cases by (simp split: sum.splits option.splits)

lemma pendle_chain_records:
  assumes "r \<in> set (fst (pendle_chain w ch []))"
  shows "chain r = chain_name ch \<and> str_includes (stablecoin r) ''USD'' \<and> 1000000 < tvl r"
proof -
  from assms obtain results where
    "r \<in> set (map (pendle_record (clock w) ch) (take 5 (filter pendle_keep results)))"
    unfolding pendle_chain_cases by (auto split: sum.splits option.splits)
  then obtain m where m: "m \<in> set (take 5 (filter pendle_keep results))"
    and r: "r = pendle_record (clock w) ch m" by auto
  from m have "m \<in> set (filter pendle_keep results)" by (rule in_set_takeD)
  then have "pendle_keep m" by simp
  then show ?thesis by (simp add: r pendle_record_def pendle_keep_def)
qed

lemma pendle_chain_failed:
  "isl (fst (fetchWithRetry (pendle_net w (chain_id ch)) (pendle_url ch) 3)) \<Longrightarrow>
   fst (pendle_chain w ch []) = []"
  unfolding pendle_chain_cases by (auto split: sum.splits)

lemma pendle_chain_fetched:
  "fst (fetchWithRetry (pendle_net w (chain_id ch)) (pendle_url ch) 3) = Inr (Some data) \<Longrightarrow>
   pendle_results data = Some results \<Longrightarrow>
   fst (pendle_chain w ch []) = map (pendle_record (clock w) ch) (take 5 (filter pendle_keep results))"
  unfolding pendle_chain_cases by simp

lemma filter_chain_own:
  "filter (\<lambda>r. chain r = chain_name ch) (fst (pendle_chain w ch [])) = fst (pendle_chain w ch [])"
  using pendle_chain_records [of _ w ch] by (simp add: filter_id_conv)

lemma filter_chain_other:
  "chain_name ch' \<noteq> chain_name ch \<Longrightarrow>
   filter (\<lambda>r. chain r = chain_name ch) (fst (pendle_chain w ch' [])) = []"
  using pendle_chain_records [of _ w ch'] by (simp add: filter_empty_conv)

text \<open>
  Claim C4. For every network, the adapter returns the concatenation of what each
  configured chain contributes on its own; at most 5 of the returned records belong
  to each configured chain; every returned record has an underlying symbol that
  contains \<^verbatim>\<open>USD\<close> and a liquidity above 1000000; a chain whose fetch fails contributes
  no record, and a chain whose fetch delivers markets contributes the records of its
  first 5 matching markets, whatever happened to the other chain.
\<close>

theorem pendle_cap_filter_isolation:
  "\<exists>ys. fst (fetchPendleYields w) = Inr ys \<and>
        ys = concat (map (\<lambda>ch. fst (pendle_chain w ch [])) pendle_chains) \<and>
        (\<forall>ch\<in>set pendle_chains. length (filter (\<lambda>r. chain r = chain_name ch) ys) \<le> 5) \<and>
        (\<forall>r\<in>set ys. str_includes (stablecoin r) ''USD'' \<and> 1000000 < tvl r) \<and>
        (\<forall>ch\<in>set pendle_chains.
           (isl (fst (fetchWithRetry (pendle_net w (chain_id ch)) (pendle_url ch) 3)) \<longrightarrow>
              fst (pendle_chain w ch []) = []) \<and>
           (\<forall>data results.
              fst (fetchWithRetry (pendle_net w (chain_id ch)) (pendle_url ch) 3) = Inr (Some data) \<and>
              pendle_results data = Some results \<longrightarrow>
              fst (pendle_chain w ch []) =
                map (pendle_record (clock w) ch) (take 5 (filter pendle_keep results))))"
proof -
  let ?e = "\<lparr> chain_id = 1, chain_name = ''Ethereum'' \<rparr>"
  let ?a = "\<lparr> chain_id = 42161, chain_name = ''Arbitrum'' \<rparr>"
  let ?ys = "concat (map (\<lambda>ch. fst (pendle_chain w ch [])) pendle_chains)"
  have ys: "?ys = fst (pendle_chain w ?e []) @ fst (pendle_chain w ?a [])"
    by (simp add: pendle_chains_def)
  have 1: "fst (fetchPendleYields w) = Inr ?ys" by (rule fetchPendleYields_concat)
  have ne: "chain_name ?e \<noteq> chain_name ?a" "chain_name ?a \<noteq> chain_name ?e" by simp_all
  have ce: "length (filter (\<lambda>r. chain r = chain_name ?e) ?ys) \<le> 5"
    unfolding ys filter_append filter_chain_own filter_chain_other [OF ne(2)]
    using pendle_chain_length [of w ?e] by simp
  have ca: "length (filter (\<lambda>r. chain r = chain_name ?a) ?ys) \<le> 5"
    unfolding ys filter_append filter_chain_own filter_chain_other [OF ne(1)]
    using pendle_chain_length [of w ?a] by simp
  have 2: "\<forall>ch\<in>set pendle_chains. length (filter (\<lambda>r. chain r = chain_name ch) ?ys) \<le> 5"
    using ce ca by (simp add: pendle_chains_def)
  have 3: "\<forall>r\<in>set ?ys. str_includes (stablecoin r) ''USD'' \<and> 1000000 < tvl r"
    using pendle_chain_records [of _ w] by auto
  have 4: "\<forall>ch\<in>set pendle_chains.
           (isl (fst (fetchWithRetry (pendle_net w (chain_id ch)) (pendle_url ch) 3)) \<longrightarrow>
              fst (pendle_chain w ch []) = []) \<and>
           (\<forall>data results.
              fst (fetchWithRetry (pendle_net w (chain_id ch)) (pendle_url ch) 3) = Inr (Some data) \<and>
              pendle_results data = Some results \<longrightarrow>
              fst (pendle_chain w ch []) =
                map (pendle_record (clock w) ch) (take 5 (filter pendle_keep results)))"
    using pendle_chain_failed [of w] pendle_chain_fetched [of w] by blast
  from 1 2 3 4 show ?thesis by blast
qed

theorem pendle_cap_filter_isolation_witness:
  "isl (fst (fetchWithRetry (pendle_net example_world 1)
               (pendle_url \<lparr> chain_id = 1, chain_name = ''Ethereum'' \<rparr>) 3)) \<and>
   fst (fetchWithRetry (pendle_net example_world 42161)
               (pendle_url \<lparr> chain_id = 42161, chain_name = ''Arbitrum'' \<rparr>) 3) =
     Inr (Some \<lparr> pendle_results = Some example_markets \<rparr>) \<and>
   fst (fetchPendleYields example_world) =
     Inr (map (pendle_record (clock example_world) \<lparr> chain_id = 42161, chain_name = ''Arbitrum'' \<rparr>)
            (susde_market # replicate 4 usd0_market))"
proof -
  let ?e = "\<lparr> chain_id = 1, chain_name = ''Ethereum'' \<rparr>"
  let ?a = "\<lparr> chain_id = 42161, chain_name = ''Arbitrum'' \<rparr>"
  have e: "isl (fst (fetchWithRetry (pendle_net example_world 1) (pendle_url ?e) 3))"
    by (simp add: fetchWithRetry_def fetchWithRetry_loop.simps [of _ _ 3] example_world_def)
  have a: "fst (fetchWithRetry (pendle_net example_world 42161) (pendle_url ?a) 3) =
     Inr (Some \<lparr> pendle_results = Some example_markets \<rparr>)"
    by (simp add: fetchWithRetry_def fetchWithRetry_loop.simps [of _ _ _ 0] example_world_def
          response_ok_def)
  have k: "take 5 (filter pendle_keep example_markets) = susde_market # replicate 4 usd0_market"
    by code_simp
  from pendle_cap_filter_isolation [of example_world] obtain ys where
    r: "fst (fetchPendleYields example_world) = Inr ys" and
    c: "ys = concat (map (\<lambda>ch. fst (pendle_chain example_world ch [])) pendle_chains)" and
    i: "\<forall>ch\<in>set pendle_chains.
           (isl (fst (fetchWithRetry (pendle_net example_world (chain_id ch)) (pendle_url ch) 3)) \<longrightarrow>
              fst (pendle_chain example_world ch []) = []) \<and>
           (\<forall>data results.
              fst (fetchWithRetry (pendle_net example_world (chain_id ch)) (pendle_url ch) 3) = Inr (Some data) \<and>
              pendle_results data = Some results \<longrightarrow>
              fst (pendle_chain example_world ch []) =
                map (pendle_record (clock example_world) ch) (take 5 (filter pendle_keep results)))"
    by blast
  have "?e \<in> set pendle_chains" by (simp add: pendle_chains_def)
  with i have "isl (fst (fetchWithRetry (pendle_net example_world (chain_id ?e)) (pendle_url ?e) 3)) \<longrightarrow>
              fst (pendle_chain example_world ?e []) = []" by blast
  with e have ce: "fst (pendle_chain example_world ?e []) = []" by simp
  have "?a \<in> set pendle_chains" by (simp add: pendle_chains_def)
  with i have "\<forall>data results.
              fst (fetchWithRetry (pendle_net example_world (chain_id ?a)) (pendle_url ?a) 3) = Inr (Some data) \<and>
              pendle_results data = Some results \<longrightarrow>
              fst (pendle_chain example_world ?a []) =
                map (pendle_record (clock example_world) ?a) (take 5 (filter pendle_keep results))"
    by blast
  then have "fst (fetchWithRetry (pendle_net example_world (chain_id ?a)) (pendle_url ?a) 3) =
                 Inr (Some \<lparr> pendle_results = Some example_markets \<rparr>) \<and>
              pendle_results \<lparr> pendle_results = Some example_markets \<rparr> = Some example_markets \<longrightarrow>
              fst (pendle_chain example_world ?a []) =
                map (pendle_record (clock example_world) ?a) (take 5 (filter pendle_keep example_markets))"
    by blast
  with a have ca: "fst (pendle_chain example_world ?a []) =
      map (pendle_record (clock example_world) ?a) (take 5 (filter pendle_keep example_markets))"
    by simp
  have "ys = fst (pendle_chain example_world ?e []) @ fst (pendle_chain example_world ?a [])"
    unfolding c by (simp add: pendle_chains_def)
  then have "ys = map (pendle_record (clock example_world) ?a) (susde_market # replicate 4 usd0_market)"
    unfolding ce ca k by simp
  with r e a show ?thesis by blast
qed

section \<open>Properties of the records' yields\<close>






text \<open>
  The rounding can move a yield onto the filter's bound: a pool with \<^verbatim>\<open>apy\<close> 199.996
  passes \<^verbatim>\<open>apy < 200\<close>, and its record has \<^verbatim>\<open>apy\<close> 200.
\<close>

lemma toFixed2_reaches_bound: "(199996 / 1000 :: rat) < 200 \<and> toFixed2 (199996 / 1000) = 200"
  by code_simp




lemma example_markets_kept:
  "take 5 (filter pendle_keep example_markets) = susde_market # replicate 4 usd0_market"
  by code_simp

lemma example_world_pendle:
  "fst (fetchPendleYields example_world) =
     Inr (map (pendle_record (clock example_world) \<lparr> chain_id = 42161, chain_name = ''Arbitrum'' \<rparr>)
            (susde_market # replicate 4 usd0_market))"
proof -
  let ?e = "\<lparr> chain_id = 1, chain_name = ''Ethereum'' \<rparr>"
  let ?a = "\<lparr> chain_id = 42161, chain_name = ''Arbitrum'' \<rparr>"
  have ce: "fst (pendle_chain example_world ?e []) = []"
    by (rule pendle_chain_failed)
       (simp add: fetchWithRetry_def fetchWithRetry_loop.simps [of _ _ 3] example_world_def)
  have "fst (pendle_chain example_world ?a []) =
      map (pendle_record (clock example_world) ?a) (take 5 (filter pendle_keep example_markets))"
    by (rule pendle_chain_fetched [where data = "\<lparr> pendle_results = Some example_markets \<rparr>"])
       (simp_all add: fetchWithRetry_def fetchWithRetry_loop.simps [of _ _ _ 0] example_world_def
          response_ok_def)
  then have ca: "fst (pendle_chain example_world ?a []) =
      map (pendle_record (clock example_world) ?a) (susde_market # replicate 4 usd0_market)"
    by (simp only: example_markets_kept)
  have "concat (map (\<lambda>ch. fst (pendle_chain example_world ch [])) pendle_chains) =
          fst (pendle_chain example_world ?e []) @ fst (pendle_chain example_world ?a [])"
    by (simp add: pendle_chains_def)
  then show ?thesis
    unfolding fetchPendleYields_concat ce ca by simp
qed




section \<open>Properties of the request handler\<close>

lemma fetchDefiLlamaYields_fulfilled: "\<exists>dl. fst (fetchDefiLlamaYields w) = Inr dl"
  unfolding fetchDefiLlamaYields_cases by (simp split: sum.splits option.splits)

lemma fetchPendleYields_fulfilled: "\<exists>pd. fst (fetchPendleYields w) = Inr pd"
  unfolding fetchPendleYields_concat by simp

lemma fetchDefiLlamaYields_caught:
  "isl (fst (fetchDefiLlamaYields_try w)) \<Longrightarrow> fst (fetchDefiLlamaYields w) = Inr []"
  by (cases "fetchDefiLlamaYields_try w") (auto simp: fetchDefiLlamaYields_def split: sum.splits)


lemma handler_try_merge:
  "fst (fetchDefiLlamaYields w) = Inr dl \<Longrightarrow> fst (fetchPendleYields w) = Inr pd \<Longrightarrow>
   handler_try w =
     Inr \<lparr> res_status = 200, res_headers = cors_headers,
           res_body = Success (dl @ pd @ getManualYieldData (clock w))
                        (compute_stats (clock w) (dl @ pd @ getManualYieldData (clock w))) \<rparr>"
  by (simp add: handler_try_def fulfilled_or_empty_def Let_def)

lemma length_manual: "length (getManualYieldData now) = 3"
  by (simp add: getManualYieldData_def)

lemma llama_fetch_failed:
  "isl (fst (fetchWithRetry (llama_net w) llama_url 3)) \<Longrightarrow> fst (fetchDefiLlamaYields w) = Inr []"
  unfolding fetchDefiLlamaYields_cases by (auto split: sum.splits)

lemma outage_llama: "fst (fetchWithRetry (llama_net outage_world) llama_url 3) = Inl NetworkError"
  by (simp add: fetchWithRetry_def fetchWithRetry_loop.simps [of _ _ 3] outage_world_def)

lemma outage_pendle:
  "fst (fetchWithRetry (pendle_net outage_world c) u 3) = Inl (HttpError 500)"
  by (simp add: fetchWithRetry_def fetchWithRetry_loop.simps [of _ _ 3] outage_world_def
        response_ok_def)

lemma outage_stats:
  "compute_stats example_now (getManualYieldData example_now) =
     \<lparr> totalOpportunities = 3, totalTVL = 416000000, avgAPY = 149 / 12,
       maxAPY = 47 / 2, minAPY = 21 / 4,
       sources = [''midas'', ''gauntlet'', ''yieldfi''],
       chains = [''Ethereum'', ''Multi-chain''], stats_updatedAt = example_now \<rparr>"
  by code_simp

text \<open>
  Claim C8. For every request and network: an \<^verbatim>\<open>OPTIONS\<close> request gives status 200 and
  no body; a method other than \<^verbatim>\<open>GET\<close> and \<^verbatim>\<open>OPTIONS\<close> gives status 405 and the body
  \<^verbatim>\<open>{success: false, error: "Method not allowed"}\<close>; a \<^verbatim>\<open>GET\<close> gives status 200 and a
  body \<^verbatim>\<open>{success: true, data, stats}\<close> whose \<^verbatim>\<open>data\<close> is the DeFiLlama records, then the
  Pendle records, then the manual records.
\<close>

theorem handler_methods:
  "(req_method req = ''OPTIONS'' \<longrightarrow>
      res_status (handler w req) = 200 \<and> res_body (handler w req) = NoBody) \<and>
   (req_method req \<noteq> ''GET'' \<and> req_method req \<noteq> ''OPTIONS'' \<longrightarrow>
      res_status (handler w req) = 405 \<and>
      res_body (handler w req) = Failure ''Method not allowed'' None) \<and>
   (req_method req = ''GET'' \<longrightarrow>
      res_status (handler w req) = 200 \<and>
      (\<exists>stats. res_body (handler w req) =
         Success (fulfilled_or_empty (fst (fetchDefiLlamaYields w)) @
                  fulfilled_or_empty (fst (fetchPendleYields w)) @
                  getManualYieldData (clock w)) stats))"
proof (intro conjI impI)
  assume "req_method req = ''OPTIONS''"
  then show "res_status (handler w req) = 200" and "res_body (handler w req) = NoBody"
    by (simp_all add: handler_def)
next
  assume "req_method req \<noteq> ''GET'' \<and> req_method req \<noteq> ''OPTIONS''"
  then show "res_status (handler w req) = 405"
    and "res_body (handler w req) = Failure ''Method not allowed'' None"
    by (simp_all add: handler_def)
next
  assume g: "req_method req = ''GET''"
  obtain dl where dl: "fst (fetchDefiLlamaYields w) = Inr dl"
    using fetchDefiLlamaYields_fulfilled by blast
  obtain pd where pd: "fst (fetchPendleYields w) = Inr pd"
    using fetchPendleYields_fulfilled by blast
  have h: "handler w req =
     \<lparr> res_status = 200, res_headers = cors_headers,
       res_body = Success (dl @ pd @ getManualYieldData (clock w))
                    (compute_stats (clock w) (dl @ pd @ getManualYieldData (clock w))) \<rparr>"
    using g handler_try_merge [OF dl pd] by (simp add: handler_def)
  show "res_status (handler w req) = 200" by (simp add: h)
  show "\<exists>stats. res_body (handler w req) =
         Success (fulfilled_or_empty (fst (fetchDefiLlamaYields w)) @
                  fulfilled_or_empty (fst (fetchPendleYields w)) @
                  getManualYieldData (clock w)) stats"
    by (simp add: h dl pd fulfilled_or_empty_def)
qed

theorem handler_methods_witness:
  "res_status (handler example_world \<lparr> req_method = ''OPTIONS'' \<rparr>) = 200 \<and>
   res_body (handler example_world \<lparr> req_method = ''OPTIONS'' \<rparr>) = NoBody \<and>
   res_status (handler example_world \<lparr> req_method = ''POST'' \<rparr>) = 405 \<and>
   res_body (handler example_world \<lparr> req_method = ''POST'' \<rparr>) =
     Failure ''Method not allowed'' None \<and>
   res_status (handler example_world GET) = 200 \<and>
   (\<exists>stats. res_body (handler example_world GET) =
      Success (map (llama_record example_now) [usdc_pool, negative_pool] @
               map (pendle_record example_now \<lparr> chain_id = 42161, chain_name = ''Arbitrum'' \<rparr>)
                 (susde_market # replicate 4 usd0_market) @
               getManualYieldData example_now) stats)"
proof -
  have c: "clock example_world = example_now" by (simp add: example_world_def)
  have l: "fst (fetchDefiLlamaYields example_world) =
             Inr (map (llama_record example_now) [usdc_pool, negative_pool])"
    by code_simp
  have o: "req_method \<lparr> req_method = ''OPTIONS'' \<rparr> = ''OPTIONS''" by simp
  have p: "req_method \<lparr> req_method = ''POST'' \<rparr> \<noteq> ''GET'' \<and>
           req_method \<lparr> req_method = ''POST'' \<rparr> \<noteq> ''OPTIONS''" by simp
  have g: "req_method GET = ''GET''" by (simp add: GET_def)
  from handler_methods [of "\<lparr> req_method = ''OPTIONS'' \<rparr>" example_world] o
  have 1: "res_status (handler example_world \<lparr> req_method = ''OPTIONS'' \<rparr>) = 200 \<and>
           res_body (handler example_world \<lparr> req_method = ''OPTIONS'' \<rparr>) = NoBody"
    by blast
  from handler_methods [of "\<lparr> req_method = ''POST'' \<rparr>" example_world] p
  have 2: "res_status (handler example_world \<lparr> req_method = ''POST'' \<rparr>) = 405 \<and>
           res_body (handler example_world \<lparr> req_method = ''POST'' \<rparr>) =
             Failure ''Method not allowed'' None"
    by blast
  from handler_methods [of GET example_world] g
  have 3: "res_status (handler example_world GET) = 200 \<and>
      (\<exists>stats. res_body (handler example_world GET) =
         Success (fulfilled_or_empty (fst (fetchDefiLlamaYields example_world)) @
                  fulfilled_or_empty (fst (fetchPendleYields example_world)) @
                  getManualYieldData (clock example_world)) stats)"
    by blast
  have 4: "fulfilled_or_empty (fst (fetchDefiLlamaYields example_world)) =
             map (llama_record example_now) [usdc_pool, negative_pool]"
    by (simp add: l fulfilled_or_empty_def)
  have 5: "fulfilled_or_empty (fst (fetchPendleYields example_world)) =
             map (pendle_record example_now \<lparr> chain_id = 42161, chain_name = ''Arbitrum'' \<rparr>)
                 (susde_market # replicate 4 usd0_market)"
    by (simp add: example_world_pendle fulfilled_or_empty_def c)
  from 1 2 3 show ?thesis unfolding 4 5 c by blast
qed



lemma pendle_all_failed:
  assumes "\<forall>ch\<in>set pendle_chains.
             isl (fst (fetchWithRetry (pendle_net w (chain_id ch)) (pendle_url ch) 3))"
  shows "fst (fetchPendleYields w) = Inr []"
proof -
  have "\<forall>ch\<in>set pendle_chains. fst (pendle_chain w ch []) = []"
    using assms pendle_chain_failed by blast
  then have "concat (map (\<lambda>ch. fst (pendle_chain w ch [])) pendle_chains) = []"
    by simp
  then show ?thesis unfolding fetchPendleYields_concat by simp
qed

lemma fetchDefiLlamaYields_try_failed:
  "isl (fst (fetchWithRetry (llama_net w) llama_url 3)) \<Longrightarrow> isl (fst (fetchDefiLlamaYields_try w))"
  by (cases "fetchWithRetry (llama_net w) llama_url 3")
     (auto simp: fetchDefiLlamaYields_try_def split: sum.splits)

lemma handler_GET:
  "fst (fetchDefiLlamaYields w) = Inr dl \<Longrightarrow> fst (fetchPendleYields w) = Inr pd \<Longrightarrow>
   handler w GET =
     \<lparr> res_status = 200, res_headers = cors_headers,
       res_body = Success (dl @ pd @ getManualYieldData (clock w))
                    (compute_stats (clock w) (dl @ pd @ getManualYieldData (clock w))) \<rparr>"
  using handler_try_merge [of w dl pd] by (simp add: handler_def GET_def)

lemma outage_handler:
  "handler outage_world GET =
     \<lparr> res_status = 200, res_headers = cors_headers,
       res_body = Success (getManualYieldData example_now)
                    (compute_stats example_now (getManualYieldData example_now)) \<rparr>"
proof -
  have c: "clock outage_world = example_now" by (simp add: outage_world_def)
  have dl: "fst (fetchDefiLlamaYields outage_world) = Inr []"
    by (rule llama_fetch_failed) (simp add: outage_llama)
  have pd: "fst (fetchPendleYields outage_world) = Inr []"
    by (rule pendle_all_failed) (simp add: outage_pendle)
  from handler_GET [OF dl pd] show ?thesis by (simp add: c)
qed

text \<open>
  Claim C1 says that with every upstream source down a \<^verbatim>\<open>GET\<close> gives status 200 with
  empty data and zeroed statistics. The manual adapter reads no network and cannot
  fail: with both network sources down the response still has status 200, but its data
  are the three manual records and its statistics are those of the three records.
\<close>

theorem total_outage_counterexample:
  "res_status (handler outage_world GET) = 200 \<and>
   res_body (handler outage_world GET) =
     Success (getManualYieldData example_now)
       \<lparr> totalOpportunities = 3, totalTVL = 416000000, avgAPY = 149 / 12,
         maxAPY = 47 / 2, minAPY = 21 / 4,
         sources = [''midas'', ''gauntlet'', ''yieldfi''],
         chains = [''Ethereum'', ''Multi-chain''], stats_updatedAt = example_now \<rparr> \<and>
   length (getManualYieldData example_now) = 3"
  by (simp add: outage_handler outage_stats length_manual)

text \<open>
  Claim C1, amended. No error of the DeFiLlama or the Pendle adapter reaches the
  handler: both promises fulfil; an error in the DeFiLlama adapter gives an empty
  list, and so does Pendle when the fetch of every chain fails. Consequently, for every
  combination of upstream failures a \<^verbatim>\<open>GET\<close> gives status 200 and
  \<^verbatim>\<open>{success: true, data, stats}\<close>, where \<^verbatim>\<open>data\<close> always ends with the three manual records
  (it is never empty) and \<^verbatim>\<open>stats\<close> are computed over \<^verbatim>\<open>data\<close>, with
  \<^verbatim>\<open>totalOpportunities \<ge> 3\<close> (they are never zeroed).
\<close>

theorem get_always_200_with_manual:
  "\<exists>dl pd.
     fst (fetchDefiLlamaYields w) = Inr dl \<and> fst (fetchPendleYields w) = Inr pd \<and>
     (isl (fst (fetchDefiLlamaYields_try w)) \<longrightarrow> dl = []) \<and>
     ((\<forall>ch\<in>set pendle_chains.
         isl (fst (fetchWithRetry (pendle_net w (chain_id ch)) (pendle_url ch) 3))) \<longrightarrow> pd = []) \<and>
     handler w GET =
       \<lparr> res_status = 200, res_headers = cors_headers,
         res_body = Success (dl @ pd @ getManualYieldData (clock w))
                      (compute_stats (clock w) (dl @ pd @ getManualYieldData (clock w))) \<rparr> \<and>
     dl @ pd @ getManualYieldData (clock w) \<noteq> [] \<and>
     3 \<le> totalOpportunities (compute_stats (clock w) (dl @ pd @ getManualYieldData (clock w)))"
proof -
  obtain dl where dl: "fst (fetchDefiLlamaYields w) = Inr dl"
    using fetchDefiLlamaYields_fulfilled by blast
  obtain pd where pd: "fst (fetchPendleYields w) = Inr pd"
    using fetchPendleYields_fulfilled by blast
  have 1: "isl (fst (fetchDefiLlamaYields_try w)) \<longrightarrow> dl = []"
    using fetchDefiLlamaYields_caught [of w] dl by simp
  have 2: "(\<forall>ch\<in>set pendle_chains.
         isl (fst (fetchWithRetry (pendle_net w (chain_id ch)) (pendle_url ch) 3))) \<longrightarrow> pd = []"
    using pendle_all_failed [of w] pd by simp
  have 3: "dl @ pd @ getManualYieldData (clock w) \<noteq> []"
    using length_manual [of "clock w"] by auto
  have 4: "3 \<le> totalOpportunities (compute_stats (clock w) (dl @ pd @ getManualYieldData (clock w)))"
    by (simp add: compute_stats_def length_manual)
  from dl pd 1 2 3 4 handler_GET [OF dl pd] show ?thesis by blast
qed

theorem get_always_200_with_manual_witness:
  "isl (fst (fetchDefiLlamaYields_try outage_world)) \<and>
   isl (fst (fetchWithRetry (pendle_net outage_world 1)
               (pendle_url \<lparr> chain_id = 1, chain_name = ''Ethereum'' \<rparr>) 3)) \<and>
   isl (fst (fetchWithRetry (pendle_net outage_world 42161)
               (pendle_url \<lparr> chain_id = 42161, chain_name = ''Arbitrum'' \<rparr>) 3)) \<and>
   handler outage_world GET =
     \<lparr> res_status = 200, res_headers = cors_headers,
       res_body = Success (getManualYieldData example_now)
                    (compute_stats example_now (getManualYieldData example_now)) \<rparr>"
proof -
  have c: "clock outage_world = example_now" by (simp add: outage_world_def)
  have a: "isl (fst (fetchDefiLlamaYields_try outage_world))"
    by (rule fetchDefiLlamaYields_try_failed) (simp add: outage_llama)
  have b: "\<forall>ch\<in>set pendle_chains.
         isl (fst (fetchWithRetry (pendle_net outage_world (chain_id ch)) (pendle_url ch) 3))"
    by (simp add: outage_pendle)
  from get_always_200_with_manual [of outage_world] a b
  have "handler outage_world GET =
       \<lparr> res_status = 200, res_headers = cors_headers,
         res_body = Success ([] @ [] @ getManualYieldData (clock outage_world))
                      (compute_stats (clock outage_world)
                         ([] @ [] @ getManualYieldData (clock outage_world))) \<rparr>"
    by blast
  then have h: "handler outage_world GET =
     \<lparr> res_status = 200, res_headers = cors_headers,
       res_body = Success (getManualYieldData example_now)
                    (compute_stats example_now (getManualYieldData example_now)) \<rparr>"
    by (simp add: c)
  from a h show ?thesis by (simp add: outage_pendle)
qed

end
